theory Spec2Isabelle
  imports Main
begin

section \<open>Security orchestrator: event matching and playbook dispatch\<close>

text \<open>
  A shallow embedding of \<^verbatim>\<open>SecurityOrchestrator\<close> from
  \<^verbatim>\<open>docker/siem/orchestrator/src/orchestrator.py\<close>.  Python strings are
  modelled as \<^typ>\<open>string\<close> (ASCII text; a character outside ASCII is a sequence of
  bytes that \<^verbatim>\<open>lower\<close> and \<^verbatim>\<open>upper\<close> leave alone), dictionaries as
  association lists read with \<^const>\<open>map_of\<close>, and every interaction with the
  outside (the search backend, the clock, the chat webhook, the playbook directory) is
  answered by an environment record, so that each way such a call can raise is a branch
  of the model.
\<close>

subsection \<open>Python values and strings\<close>

record datetime =
  dt_year :: nat
  dt_month :: nat
  dt_day :: nat
  dt_hour :: nat
  dt_minute :: nat
  dt_second :: nat
  dt_microsecond :: nat

datatype pyval =
    PNone
  | PBool bool
  | PInt int
  | PStr string
  | PTime datetime
  | PList "pyval list"
  | PDict "(string \<times> pyval) list"

type_synonym pydict = "(string \<times> pyval) list"

text \<open>\<^verbatim>\<open>d.get(k, default)\<close> on a dictionary.\<close>

definition dict_get :: "pydict \<Rightarrow> string \<Rightarrow> pyval \<Rightarrow> pyval" where
  "dict_get d k dflt = (case map_of d k of None \<Rightarrow> dflt | Some v \<Rightarrow> v)"

text \<open>\<^verbatim>\<open>d[k] = v\<close>: an existing key keeps its position, a new key goes last.\<close>

fun dict_set :: "('k \<times> 'v) list \<Rightarrow> 'k \<Rightarrow> 'v \<Rightarrow> ('k \<times> 'v) list" where
  "dict_set [] k v = [(k, v)]"
| "dict_set ((k', v') # d) k v = (if k' = k then (k, v) # d else (k', v') # dict_set d k v)"

fun type_name :: "pyval \<Rightarrow> string" where
  "type_name PNone = ''NoneType''"
| "type_name (PBool _) = ''bool''"
| "type_name (PInt _) = ''int''"
| "type_name (PStr _) = ''str''"
| "type_name (PTime _) = ''datetime.datetime''"
| "type_name (PList _) = ''list''"
| "type_name (PDict _) = ''dict''"

text \<open>
  \<^verbatim>\<open>params.get(k, default)\<close> where \<^verbatim>\<open>params\<close> is whatever the playbook file
  gave: only a dictionary (and no other value of \<^typ>\<open>pyval\<close>) has a \<^verbatim>\<open>get\<close>;
  on the others the attribute access raises AttributeError, whose text is the \<open>Inl\<close>.
\<close>

fun py_get :: "pyval \<Rightarrow> string \<Rightarrow> pyval \<Rightarrow> string + pyval" where
  "py_get (PDict d) k dflt = Inr (dict_get d k dflt)"
| "py_get v k dflt =
     Inl ([CHR 0x27] @ type_name v @ [CHR 0x27] @ '' object has no attribute ''
          @ [CHR 0x27] @ ''get'' @ [CHR 0x27])"

text \<open>\<^verbatim>\<open>needle in haystack\<close> on strings: a contiguous occurrence.\<close>

fun starts_with :: "'a list \<Rightarrow> 'a list \<Rightarrow> bool" where
  "starts_with [] ys = True"
| "starts_with (x # xs) [] = False"
| "starts_with (x # xs) (y # ys) = (x = y \<and> starts_with xs ys)"

fun str_in :: "'a list \<Rightarrow> 'a list \<Rightarrow> bool" where
  "str_in xs [] = (xs = [])"
| "str_in xs (y # ys) = (starts_with xs (y # ys) \<or> str_in xs ys)"

text \<open>\<^verbatim>\<open>str.lower()\<close> and \<^verbatim>\<open>str.upper()\<close> on ASCII text, letter by letter.\<close>

definition lower_char :: "char \<Rightarrow> char" where
  "lower_char c =
     (case map_of (zip ''ABCDEFGHIJKLMNOPQRSTUVWXYZ'' ''abcdefghijklmnopqrstuvwxyz'') c of
        None \<Rightarrow> c | Some d \<Rightarrow> d)"

definition upper_char :: "char \<Rightarrow> char" where
  "upper_char c =
     (case map_of (zip ''abcdefghijklmnopqrstuvwxyz'' ''ABCDEFGHIJKLMNOPQRSTUVWXYZ'') c of
        None \<Rightarrow> c | Some d \<Rightarrow> d)"

definition lower :: "string \<Rightarrow> string" where
  "lower s = map lower_char s"

definition upper :: "string \<Rightarrow> string" where
  "upper s = map upper_char s"

text \<open>
  \<^verbatim>\<open>str(n)\<close> for a natural number, and the zero padding of the fields of
  \<^verbatim>\<open>strftime\<close> (two digits, and four for the years from 1000 on).
\<close>

definition digit_char :: "nat \<Rightarrow> char" where
  "digit_char n = ''0123456789'' ! (n mod 10)"

fun str_nat :: "nat \<Rightarrow> string" where
  "str_nat n = (if n < 10 then [digit_char n] else str_nat (n div 10) @ [digit_char n])"

declare str_nat.simps [simp del]

definition zero_pad :: "nat \<Rightarrow> nat \<Rightarrow> string" where
  "zero_pad width n = replicate (width - length (str_nat n)) CHR ''0'' @ str_nat n"

text \<open>\<^verbatim>\<open>f"{x}"\<close> of an optional string: \<^verbatim>\<open>None\<close> prints as the word None.\<close>

fun str_opt :: "string option \<Rightarrow> string" where
  "str_opt None = ''None''"
| "str_opt (Some s) = s"

text \<open>\<^verbatim>\<open>x or 'Unknown'\<close>: \<^verbatim>\<open>None\<close> and the empty string are falsy.\<close>

fun or_unknown :: "string option \<Rightarrow> string" where
  "or_unknown None = ''Unknown''"
| "or_unknown (Some s) = (if s = [] then ''Unknown'' else s)"

text \<open>\<^verbatim>\<open>dt.strftime('%Y%m%d-%H%M%S')\<close>: resolution of one second.\<close>

definition strftime_id :: "datetime \<Rightarrow> string" where
  "strftime_id t =
     zero_pad 4 (dt_year t) @ zero_pad 2 (dt_month t) @ zero_pad 2 (dt_day t) @ ''-''
     @ zero_pad 2 (dt_hour t) @ zero_pad 2 (dt_minute t) @ zero_pad 2 (dt_second t)"

subsection \<open>The pydantic models\<close>

record SecurityEvent =
  timestamp :: datetime
  event_type :: string
  severity :: string
  source :: string
  source_ip :: "string option"
  user :: "string option"
  description :: string
  raw_data :: pydict
  tags :: "string list"

record IncidentResponse =
  incident_id :: string
  inc_severity :: string
  status :: string
  actions_taken :: "string list"
  inc_timestamp :: datetime
  resolved :: bool

record PlaybookConfig =
  name :: string
  triggers :: "string list"
  severity_threshold :: string
  actions :: "pydict list"
  enabled :: bool

subsection \<open>The matcher: \<^verbatim>\<open>event_matches_playbook\<close>\<close>

definition severity_levels :: "(string \<times> nat) list" where
  "severity_levels =
     [(''info'', 1), (''low'', 2), (''medium'', 3), (''high'', 4), (''critical'', 5)]"

text \<open>\<^verbatim>\<open>severity_levels.get(s, default)\<close>.\<close>

definition severity_get :: "string \<Rightarrow> nat \<Rightarrow> nat" where
  "severity_get s dflt = (case map_of severity_levels s of None \<Rightarrow> dflt | Some r \<Rightarrow> r)"

text \<open>The test of one trigger, the condition of the \<^verbatim>\<open>if\<close> in the trigger loop.\<close>

definition trigger_hits :: "SecurityEvent \<Rightarrow> string \<Rightarrow> bool" where
  "trigger_hits event trigger =
     (str_in trigger (event_type event) \<or>
      str_in trigger (lower (description event)) \<or>
      list_ex (\<lambda>tag. str_in trigger tag) (tags event))"

text \<open>The loop \<^verbatim>\<open>for trigger in playbook.triggers\<close>, returning at the first hit.\<close>

fun check_triggers :: "SecurityEvent \<Rightarrow> string list \<Rightarrow> bool" where
  "check_triggers event [] = False"
| "check_triggers event (trigger # rest) =
     (if trigger_hits event trigger then True else check_triggers event rest)"

definition event_matches_playbook :: "SecurityEvent \<Rightarrow> PlaybookConfig \<Rightarrow> bool" where
  "event_matches_playbook event playbook =
     (if \<not> enabled playbook then False
      else
        let event_severity = severity_get (severity event) 0;
            threshold_severity = severity_get (severity_threshold playbook) 5
        in if event_severity < threshold_severity then False
           else check_triggers event (triggers playbook))"

subsection \<open>The outside world\<close>

text \<open>
  What the orchestrator does to the outside, in the order it does it: log lines, calls
  of \<^verbatim>\<open>es_client.index\<close> (with the reason when the call raised), posts to the chat
  webhook, stores into \<^verbatim>\<open>self.incidents\<close>, searches and sleeps.
\<close>

datatype level = INFO | WARNING | ERROR

datatype effect =
    Log level string
  | EsIndex string pydict "string option"
  | EsSearch "string option"
  | SlackPost string "string option"
  | IncidentPut string
  | Sleep nat

text \<open>
  The environment answers every call that leaves the process.  Each such call takes
  the next tick, and the answer may depend on the tick: \<open>es_index_raises env n\<close> is
  \<open>Some reason\<close> when the call made at tick \<open>n\<close> raises.  The library functions
  \<^verbatim>\<open>datetime.isoformat\<close> and \<^verbatim>\<open>datetime.fromisoformat\<close>, the text of
  pydantic's validation error, the two configuration constants read from the process
  environment and the content of the playbook directory are parameters as well.  A file of
  the directory is its name with the outcome of \<^verbatim>\<open>open\<close>, \<^verbatim>\<open>yaml.safe_load\<close> and
  \<^verbatim>\<open>PlaybookConfig(**playbook_data)\<close> on it: the playbook, or the text of what was
  raised.
\<close>

record env =
  es_client_raises :: "string option"
  es_index_raises :: "nat \<Rightarrow> string option"
  es_search_result :: "nat \<Rightarrow> string + pydict list"
  slack_post_raises :: "nat \<Rightarrow> string option"
  now_local :: "nat \<Rightarrow> datetime"
  now_utc :: "nat \<Rightarrow> datetime"
  isoformat :: "datetime \<Rightarrow> string"
  fromisoformat :: "string \<Rightarrow> datetime option"
  validation_error :: string
  SLACK_WEBHOOK_URL :: string
  EMAIL_SMTP_HOST :: string
  playbooks_dir :: "(string + (string \<times> (string + PlaybookConfig)) list) option"

text \<open>The fields of \<^verbatim>\<open>self\<close>, with the effects so far and the tick counter.\<close>

record orchestrator =
  playbooks :: "PlaybookConfig list"
  incidents :: "(string \<times> IncidentResponse) list"
  trace :: "effect list"
  ticks :: nat

definition emit :: "effect \<Rightarrow> orchestrator \<Rightarrow> orchestrator" where
  "emit e self = self\<lparr>trace := trace self @ [e]\<rparr>"

definition logger :: "level \<Rightarrow> string \<Rightarrow> orchestrator \<Rightarrow> orchestrator" where
  "logger lvl msg self = emit (Log lvl msg) self"

definition tick :: "orchestrator \<Rightarrow> orchestrator" where
  "tick self = self\<lparr>ticks := Suc (ticks self)\<rparr>"

text \<open>\<^verbatim>\<open>datetime.now()\<close> and \<^verbatim>\<open>datetime.now(timezone.utc)\<close>.\<close>

definition datetime_now :: "env \<Rightarrow> orchestrator \<Rightarrow> datetime \<times> orchestrator" where
  "datetime_now env self = (now_local env (ticks self), tick self)"

definition datetime_now_utc :: "env \<Rightarrow> orchestrator \<Rightarrow> datetime \<times> orchestrator" where
  "datetime_now_utc env self = (now_utc env (ticks self), tick self)"

text \<open>\<^verbatim>\<open>await self.es_client.index(index=..., body=...)\<close>: the reason when it raises.\<close>

definition es_index ::
  "env \<Rightarrow> string \<Rightarrow> pydict \<Rightarrow> orchestrator \<Rightarrow> string option \<times> orchestrator" where
  "es_index env index body self =
     (let r = es_index_raises env (ticks self)
      in (r, emit (EsIndex index body r) (tick self)))"

text \<open>\<^verbatim>\<open>client.post(SLACK_WEBHOOK_URL, ...)\<close> followed by \<^verbatim>\<open>raise_for_status()\<close>.\<close>

definition slack_post ::
  "env \<Rightarrow> string \<Rightarrow> orchestrator \<Rightarrow> string option \<times> orchestrator" where
  "slack_post env message self =
     (let r = slack_post_raises env (ticks self)
      in (r, emit (SlackPost message r) (tick self)))"

definition opt_val :: "string option \<Rightarrow> pyval" where
  "opt_val x = (case x of None \<Rightarrow> PNone | Some s \<Rightarrow> PStr s)"

text \<open>Python's \<^verbatim>\<open>not x\<close> on an optional string.\<close>

definition falsy :: "string option \<Rightarrow> bool" where
  "falsy x = (case x of None \<Rightarrow> True | Some s \<Rightarrow> s = [])"

subsection \<open>The action capabilities\<close>

text \<open>
  Each capability wraps its work in \<^verbatim>\<open>try ... except Exception\<close> and logs what it
  caught, so none of them raises to its caller: the result is the new state only.  The
  dictionary literal of the body is evaluated entry by entry before the call, so the clock
  is read before \<^verbatim>\<open>params.get\<close> can raise.
\<close>

definition block_ip_address ::
  "env \<Rightarrow> string option \<Rightarrow> pyval \<Rightarrow> orchestrator \<Rightarrow> orchestrator" where
  "block_ip_address env ip_address params self =
     (if falsy ip_address then self
      else
        let ip = the ip_address;
            failed = (\<lambda>e. logger ERROR (''Error blocking IP address '' @ ip @ '': '' @ e));
            s1 = logger WARNING (''SECURITY ACTION: Blocking IP address '' @ ip) self;
            (now, s2) = datetime_now_utc env s1
        in case py_get params ''duration'' (PStr ''1h'') of
             Inl e \<Rightarrow> failed e s2
           | Inr duration \<Rightarrow>
               (case es_index env ''security-blocklist''
                       [(''ip_address'', PStr ip),
                        (''action'', PStr ''block''),
                        (''timestamp'', PStr (isoformat env now)),
                        (''reason'', PStr ''Automated security response''),
                        (''duration'', duration)] s2 of
                  (Some e, s3) \<Rightarrow> failed e s3
                | (None, s3) \<Rightarrow> s3))"

definition disable_user_account ::
  "env \<Rightarrow> string option \<Rightarrow> pyval \<Rightarrow> orchestrator \<Rightarrow> orchestrator" where
  "disable_user_account env username params self =
     (if falsy username then self
      else
        let u = the username;
            failed = (\<lambda>e. logger ERROR (''Error disabling user account '' @ u @ '': '' @ e));
            s1 = logger WARNING (''SECURITY ACTION: Disabling user account '' @ u) self;
            (now, s2) = datetime_now_utc env s1
        in case py_get params ''duration'' (PStr ''permanent'') of
             Inl e \<Rightarrow> failed e s2
           | Inr duration \<Rightarrow>
               (case es_index env ''security-actions''
                       [(''action'', PStr ''disable_user''),
                        (''username'', PStr u),
                        (''timestamp'', PStr (isoformat env now)),
                        (''reason'', PStr ''Automated security response''),
                        (''duration'', duration)] s2 of
                  (Some e, s3) \<Rightarrow> failed e s3
                | (None, s3) \<Rightarrow> s3))"

definition isolate_host ::
  "env \<Rightarrow> string option \<Rightarrow> pyval \<Rightarrow> orchestrator \<Rightarrow> orchestrator" where
  "isolate_host env ip_address params self =
     (if falsy ip_address then self
      else
        let ip = the ip_address;
            failed = (\<lambda>e. logger ERROR (''Error isolating host '' @ ip @ '': '' @ e));
            s1 = logger WARNING (''SECURITY ACTION: Isolating host '' @ ip) self;
            (now, s2) = datetime_now_utc env s1
        in case py_get params ''type'' (PStr ''network'') of
             Inl e \<Rightarrow> failed e s2
           | Inr isolation_type \<Rightarrow>
               (case es_index env ''security-actions''
                       [(''action'', PStr ''isolate_host''),
                        (''ip_address'', PStr ip),
                        (''timestamp'', PStr (isoformat env now)),
                        (''reason'', PStr ''Automated security response''),
                        (''isolation_type'', isolation_type)] s2 of
                  (Some e, s3) \<Rightarrow> failed e s3
                | (None, s3) \<Rightarrow> s3))"

definition send_slack_alert :: "env \<Rightarrow> string \<Rightarrow> orchestrator \<Rightarrow> orchestrator" where
  "send_slack_alert env message self =
     (case slack_post env message self of
        (Some e, s1) \<Rightarrow> logger ERROR (''Error sending Slack alert: '' @ e) s1
      | (None, s1) \<Rightarrow> s1)"

definition send_email_alert :: "env \<Rightarrow> string \<Rightarrow> orchestrator \<Rightarrow> orchestrator" where
  "send_email_alert env message self = logger INFO ''Email alert would be sent here'' self"

text \<open>The two banner marks of the alert text, as the bytes the source file holds.\<close>

definition siren :: string where
  "siren = [CHR 0xC3, CHR 0xB0, CHR 0xC5, CHR 0xB8, CHR 0xC5, CHR 0xA1, CHR 0xC2, CHR 0xA8]"

definition alert_message :: "env \<Rightarrow> SecurityEvent \<Rightarrow> string" where
  "alert_message env event =
     [CHR 0x0A] @ siren @ '' SECURITY ALERT '' @ siren @ [CHR 0x0A, CHR 0x0A]
     @ ''Severity: '' @ upper (severity event) @ [CHR 0x0A]
     @ ''Event Type: '' @ event_type event @ [CHR 0x0A]
     @ ''Source: '' @ or_unknown (source_ip event) @ [CHR 0x0A]
     @ ''User: '' @ or_unknown (user event) @ [CHR 0x0A]
     @ ''Time: '' @ isoformat env (timestamp event) @ [CHR 0x0A, CHR 0x0A]
     @ ''Description: '' @ description event @ [CHR 0x0A, CHR 0x0A]
     @ ''Automated Response: Security orchestrator has been activated.'' @ [CHR 0x0A]"

definition send_security_alert ::
  "env \<Rightarrow> SecurityEvent \<Rightarrow> pyval \<Rightarrow> orchestrator \<Rightarrow> orchestrator" where
  "send_security_alert env event params self =
     (let message = alert_message env event;
          s1 = (if SLACK_WEBHOOK_URL env \<noteq> [] then send_slack_alert env message self else self);
          s2 = (if EMAIL_SMTP_HOST env \<noteq> [] then send_email_alert env message s1 else s1)
      in logger INFO ''Security alert sent successfully'' s2)"

definition create_incident_ticket ::
  "env \<Rightarrow> SecurityEvent \<Rightarrow> pyval \<Rightarrow> orchestrator \<Rightarrow> orchestrator" where
  "create_incident_ticket env event params self =
     (let failed = (\<lambda>e. logger ERROR (''Error creating incident ticket: '' @ e))
      in case py_get params ''assigned_to'' (PStr ''security-team'') of
           Inl e \<Rightarrow> failed e self
         | Inr assigned_to \<Rightarrow>
             (case es_index env ''security-tickets''
                     [(''title'', PStr (''Security Incident: '' @ event_type event)),
                      (''description'', PStr (description event)),
                      (''severity'', PStr (severity event)),
                      (''source_ip'', opt_val (source_ip event)),
                      (''user'', opt_val (user event)),
                      (''timestamp'', PStr (isoformat env (timestamp event))),
                      (''status'', PStr ''open''),
                      (''assigned_to'', assigned_to)] self of
                (Some e, s1) \<Rightarrow> failed e s1
              | (None, s1) \<Rightarrow> logger INFO ''Security incident ticket created'' s1))"

text \<open>\<^verbatim>\<open>incident.dict()\<close>.\<close>

definition incident_dict :: "IncidentResponse \<Rightarrow> pydict" where
  "incident_dict incident =
     [(''incident_id'', PStr (incident_id incident)),
      (''severity'', PStr (inc_severity incident)),
      (''status'', PStr (status incident)),
      (''actions_taken'', PList (map PStr (actions_taken incident))),
      (''timestamp'', PTime (inc_timestamp incident)),
      (''resolved'', PBool (resolved incident))]"

definition store_incident :: "env \<Rightarrow> IncidentResponse \<Rightarrow> orchestrator \<Rightarrow> orchestrator" where
  "store_incident env incident self =
     (case es_index env ''security-incidents'' (incident_dict incident) self of
        (Some e, s1) \<Rightarrow> logger ERROR (''Error storing incident: '' @ e) s1
      | (None, s1) \<Rightarrow> s1)"

subsection \<open>The dispatcher: \<^verbatim>\<open>execute_playbook\<close>\<close>

text \<open>
  One turn of the loop \<^verbatim>\<open>for action in playbook.actions\<close>: the chain of
  \<^verbatim>\<open>if ... elif\<close> on the action's type, which has no \<^verbatim>\<open>else\<close>.  The state of the
  loop is the local list \<^verbatim>\<open>actions_taken\<close> with the orchestrator.
\<close>

definition run_action ::
  "env \<Rightarrow> SecurityEvent \<Rightarrow> pydict \<Rightarrow> string list \<times> orchestrator
     \<Rightarrow> string list \<times> orchestrator" where
  "run_action env event action st =
     (let (taken, self) = st;
          action_type = dict_get action ''type'' PNone;
          action_params = dict_get action ''params'' (PDict [])
      in if action_type = PStr ''block_ip'' then
           (taken @ [''Blocked IP: '' @ str_opt (source_ip event)],
            block_ip_address env (source_ip event) action_params self)
         else if action_type = PStr ''disable_user'' then
           (taken @ [''Disabled user: '' @ str_opt (user event)],
            disable_user_account env (user event) action_params self)
         else if action_type = PStr ''send_alert'' then
           (taken @ [''Sent security alert''],
            send_security_alert env event action_params self)
         else if action_type = PStr ''isolate_host'' then
           (taken @ [''Isolated host: '' @ str_opt (source_ip event)],
            isolate_host env (source_ip event) action_params self)
         else if action_type = PStr ''create_ticket'' then
           (taken @ [''Created incident ticket''],
            create_incident_ticket env event action_params self)
         else (taken, self))"

fun run_actions ::
  "env \<Rightarrow> SecurityEvent \<Rightarrow> pydict list \<Rightarrow> string list \<times> orchestrator
     \<Rightarrow> string list \<times> orchestrator" where
  "run_actions env event [] st = st"
| "run_actions env event (action # rest) st =
     run_actions env event rest (run_action env event action st)"

definition make_incident_id :: "datetime \<Rightarrow> SecurityEvent \<Rightarrow> string" where
  "make_incident_id now event = ''incident-'' @ strftime_id now @ ''-'' @ event_type event"

text \<open>
  No statement of the body of \<^verbatim>\<open>execute_playbook\<close> raises in this model (the
  capabilities catch what their calls raise), so its own \<^verbatim>\<open>except\<close> branch has no
  counterpart here.
\<close>

definition execute_playbook ::
  "env \<Rightarrow> SecurityEvent \<Rightarrow> PlaybookConfig \<Rightarrow> orchestrator \<Rightarrow> orchestrator" where
  "execute_playbook env event playbook self =
     (let (now, s1) = datetime_now env self;
          iid = make_incident_id now event;
          s2 = logger INFO (''Executing playbook '' @ [CHR 0x27] @ name playbook @ [CHR 0x27]
                            @ '' for incident '' @ iid) s1;
          (taken, s3) = run_actions env event (actions playbook) ([], s2);
          (created, s4) = datetime_now_utc env s3;
          incident = \<lparr>incident_id = iid, inc_severity = severity event, status = ''active'',
                      actions_taken = taken, inc_timestamp = created, resolved = False\<rparr>;
          s5 = emit (IncidentPut iid) (s4\<lparr>incidents := dict_set (incidents s4) iid incident\<rparr>);
          s6 = store_incident env incident s5
      in logger INFO (''Playbook execution completed for incident '' @ iid) s6)"

subsection \<open>Event intake: \<^verbatim>\<open>process_security_event\<close> and the monitor loop\<close>

text \<open>
  What pydantic accepts for a field declared \<^verbatim>\<open>str\<close>, \<^verbatim>\<open>Optional[str]\<close> and
  \<^verbatim>\<open>List[str]\<close>.  The model is strict: a value of another type is a validation error
  (pydantic's conversions of numbers to strings are not modelled).
\<close>

fun as_str :: "pyval \<Rightarrow> string option" where
  "as_str (PStr s) = Some s"
| "as_str v = None"

fun as_opt_str :: "pyval \<Rightarrow> string option option" where
  "as_opt_str PNone = Some None"
| "as_opt_str (PStr s) = Some (Some s)"
| "as_opt_str v = None"

fun as_str_list :: "pyval \<Rightarrow> string list option" where
  "as_str_list (PList vs) = those (map as_str vs)"
| "as_str_list v = None"

text \<open>
  The construction \<^verbatim>\<open>SecurityEvent(...)\<close> from a raw record.  The default of
  \<^verbatim>\<open>event_data.get('@timestamp', ...)\<close> is an argument, so the clock is read whether
  or not the key is there: \<open>make_event\<close> reads it and \<open>build_event\<close> does the
  rest.  \<open>Inl\<close> is the text of what was raised (for a timestamp that does not parse,
  with the string as \<^verbatim>\<open>repr\<close> prints one that has no quote or escape in it).
\<close>

definition build_event :: "env \<Rightarrow> pydict \<Rightarrow> datetime \<Rightarrow> string + SecurityEvent" where
  "build_event env event_data now =
     (case dict_get event_data ''@timestamp'' (PStr (isoformat env now)) of
        PStr ts \<Rightarrow>
          (case fromisoformat env ts of
             None \<Rightarrow> Inl (''Invalid isoformat string: '' @ [CHR 0x27] @ ts @ [CHR 0x27])
           | Some t \<Rightarrow>
               (case (as_str (dict_get event_data ''event_type'' (PStr ''unknown'')),
                      as_str (dict_get event_data ''security_severity'' (PStr ''info'')),
                      as_str (dict_get event_data ''source'' (PStr ''unknown'')),
                      as_opt_str (dict_get event_data ''source_ip'' PNone),
                      as_opt_str (dict_get event_data ''username'' PNone),
                      as_str (dict_get event_data ''message'' (PStr [])),
                      as_str_list (dict_get event_data ''tags'' (PList []))) of
                  (Some et, Some sev, Some src, Some ip, Some u, Some msg, Some tgs) \<Rightarrow>
                    Inr \<lparr>timestamp = t, event_type = et, severity = sev, source = src,
                         source_ip = ip, user = u, description = msg,
                         raw_data = event_data, tags = tgs\<rparr>
                | _ \<Rightarrow> Inl (validation_error env)))
      | _ \<Rightarrow> Inl ''fromisoformat: argument must be str'')"

definition make_event ::
  "env \<Rightarrow> pydict \<Rightarrow> orchestrator \<Rightarrow> (string + SecurityEvent) \<times> orchestrator" where
  "make_event env event_data self =
     (let (now, s1) = datetime_now_utc env self in (build_event env event_data now, s1))"

text \<open>The loop \<^verbatim>\<open>for playbook in self.playbooks\<close>.\<close>

fun dispatch_playbooks ::
  "env \<Rightarrow> SecurityEvent \<Rightarrow> PlaybookConfig list \<Rightarrow> orchestrator \<Rightarrow> orchestrator" where
  "dispatch_playbooks env event [] self = self"
| "dispatch_playbooks env event (playbook # rest) self =
     dispatch_playbooks env event rest
       (if event_matches_playbook event playbook then execute_playbook env event playbook self
        else self)"

definition process_security_event :: "env \<Rightarrow> pydict \<Rightarrow> orchestrator \<Rightarrow> orchestrator" where
  "process_security_event env event_data self =
     (case make_event env event_data self of
        (Inl e, s1) \<Rightarrow> logger ERROR (''Error processing security event: '' @ e) s1
      | (Inr event, s1) \<Rightarrow> dispatch_playbooks env event (playbooks s1) s1)"

text \<open>\<^verbatim>\<open>await self.es_client.search(...)\<close>: the records of the hits, or the reason.\<close>

definition es_search :: "env \<Rightarrow> orchestrator \<Rightarrow> (string + pydict list) \<times> orchestrator" where
  "es_search env self =
     (let r = es_search_result env (ticks self)
      in (r, emit (EsSearch (case r of Inl e \<Rightarrow> Some e | Inr hits \<Rightarrow> None)) (tick self)))"

text \<open>The loop \<^verbatim>\<open>for hit in response['hits']['hits']\<close>.\<close>

fun process_hits :: "env \<Rightarrow> pydict list \<Rightarrow> orchestrator \<Rightarrow> orchestrator" where
  "process_hits env [] self = self"
| "process_hits env (hit # rest) self =
     process_hits env rest (process_security_event env hit self)"

text \<open>One turn of \<^verbatim>\<open>while True\<close> in \<^verbatim>\<open>monitor_security_events\<close>.\<close>

definition monitor_poll :: "env \<Rightarrow> orchestrator \<Rightarrow> orchestrator" where
  "monitor_poll env self =
     (case es_search env self of
        (Inl e, s1) \<Rightarrow>
          emit (Sleep 30) (logger ERROR (''Error monitoring security events: '' @ e) s1)
      | (Inr hits, s1) \<Rightarrow> emit (Sleep 10) (process_hits env hits s1))"

text \<open>
  The loop never returns; the state after its first \<open>n\<close> turns is what can be observed
  of it.
\<close>

fun monitor_security_events :: "nat \<Rightarrow> env \<Rightarrow> orchestrator \<Rightarrow> orchestrator" where
  "monitor_security_events 0 env self = self"
| "monitor_security_events (Suc n) env self =
     monitor_security_events n env (monitor_poll env self)"

subsection \<open>Start-up: \<^verbatim>\<open>load_playbooks\<close> and \<^verbatim>\<open>initialize\<close>\<close>

definition endswith :: "string \<Rightarrow> string \<Rightarrow> bool" where
  "endswith s suffix = starts_with (rev suffix) (rev s)"

text \<open>
  The loop \<^verbatim>\<open>for filename in os.listdir(playbooks_dir)\<close>.  Whatever a file raises
  leaves the loop: \<open>Some reason\<close> with the state reached.
\<close>

fun load_files ::
  "(string \<times> (string + PlaybookConfig)) list \<Rightarrow> orchestrator
     \<Rightarrow> string option \<times> orchestrator" where
  "load_files [] self = (None, self)"
| "load_files ((filename, content) # rest) self =
     (if endswith filename ''.yaml'' \<or> endswith filename ''.yml'' then
        (case content of
           Inl e \<Rightarrow> (Some e, self)
         | Inr playbook \<Rightarrow> load_files rest (self\<lparr>playbooks := playbooks self @ [playbook]\<rparr>))
      else load_files rest self)"

definition loaded_message :: "orchestrator \<Rightarrow> string" where
  "loaded_message self =
     ''Loaded '' @ str_nat (length (playbooks self)) @ '' security playbooks''"

definition load_playbooks :: "env \<Rightarrow> orchestrator \<Rightarrow> orchestrator" where
  "load_playbooks env self =
     (case playbooks_dir env of
        None \<Rightarrow> logger INFO (loaded_message self) self
      | Some (Inl e) \<Rightarrow> logger ERROR (''Failed to load playbooks: '' @ e) self
      | Some (Inr files) \<Rightarrow>
          (case load_files files self of
             (Some e, s1) \<Rightarrow> logger ERROR (''Failed to load playbooks: '' @ e) s1
           | (None, s1) \<Rightarrow> logger INFO (loaded_message s1) s1))"

text \<open>
  \<^verbatim>\<open>initialize\<close>: \<open>Some reason\<close> when it raises, which is when start-up fails.  The
  monitor task it creates runs afterwards and is \<^const>\<open>monitor_security_events\<close>.
\<close>

definition initialize :: "env \<Rightarrow> orchestrator \<Rightarrow> string option \<times> orchestrator" where
  "initialize env self =
     (case es_client_raises env of
        Some e \<Rightarrow>
          (Some e, logger ERROR (''Failed to initialize security orchestrator: '' @ e) self)
      | None \<Rightarrow>
          (None, logger INFO ''Security orchestrator initialized successfully''
                   (load_playbooks env self)))"

definition new_orchestrator :: orchestrator where
  "new_orchestrator = \<lparr>playbooks = [], incidents = [], trace = [], ticks = 0\<rparr>"

subsection \<open>Notions used in the statements\<close>

text \<open>
  The entry that one turn of the action loop appends for an action, if any: the text of
  the \<^verbatim>\<open>append\<close> in the branch the action's type selects.
\<close>

definition entry_of :: "SecurityEvent \<Rightarrow> pydict \<Rightarrow> string option" where
  "entry_of event action =
     (let action_type = dict_get action ''type'' PNone
      in if action_type = PStr ''block_ip'' then
           Some (''Blocked IP: '' @ str_opt (source_ip event))
         else if action_type = PStr ''disable_user'' then
           Some (''Disabled user: '' @ str_opt (user event))
         else if action_type = PStr ''send_alert'' then Some ''Sent security alert''
         else if action_type = PStr ''isolate_host'' then
           Some (''Isolated host: '' @ str_opt (source_ip event))
         else if action_type = PStr ''create_ticket'' then Some ''Created incident ticket''
         else None)"

text \<open>The action types the dispatcher has a branch for.\<close>

definition known_types :: "pyval list" where
  "known_types =
     [PStr ''block_ip'', PStr ''disable_user'', PStr ''send_alert'', PStr ''isolate_host'',
      PStr ''create_ticket'']"

definition is_put :: "effect \<Rightarrow> bool" where
  "is_put e = (case e of IncidentPut i \<Rightarrow> True | _ \<Rightarrow> False)"

text \<open>The number of stores into \<^verbatim>\<open>self.incidents\<close> so far.\<close>

definition incident_puts :: "orchestrator \<Rightarrow> nat" where
  "incident_puts self = length (filter is_put (trace self))"

text \<open>
  A step from \<open>s\<close> to \<open>s'\<close> that leaves the playbooks and the incidents alone and only
  adds effects other than stores into \<^verbatim>\<open>self.incidents\<close>.
\<close>

definition quiet :: "orchestrator \<Rightarrow> orchestrator \<Rightarrow> bool" where
  "quiet s s' \<longleftrightarrow>
     incidents s' = incidents s \<and> playbooks s' = playbooks s \<and>
     (\<exists>es. trace s' = trace s @ es \<and> filter is_put es = [])"

text \<open>
  The id a dispatch from state \<open>self\<close> gives its incident, the states in which its
  action loop starts and ends, and the incident it builds after the loop.
\<close>

definition dispatch_id :: "env \<Rightarrow> SecurityEvent \<Rightarrow> orchestrator \<Rightarrow> string" where
  "dispatch_id env event self = make_incident_id (now_local env (ticks self)) event"

definition before_actions ::
  "env \<Rightarrow> SecurityEvent \<Rightarrow> PlaybookConfig \<Rightarrow> orchestrator \<Rightarrow> orchestrator" where
  "before_actions env event playbook self =
     logger INFO (''Executing playbook '' @ [CHR 0x27] @ name playbook @ [CHR 0x27]
                  @ '' for incident '' @ dispatch_id env event self) (tick self)"

definition after_actions ::
  "env \<Rightarrow> SecurityEvent \<Rightarrow> PlaybookConfig \<Rightarrow> orchestrator \<Rightarrow> orchestrator" where
  "after_actions env event playbook self =
     snd (run_actions env event (actions playbook) ([], before_actions env event playbook self))"

definition dispatched_incident ::
  "env \<Rightarrow> SecurityEvent \<Rightarrow> PlaybookConfig \<Rightarrow> orchestrator \<Rightarrow> IncidentResponse" where
  "dispatched_incident env event playbook self =
     \<lparr>incident_id = dispatch_id env event self, inc_severity = severity event,
      status = ''active'',
      actions_taken = List.map_filter (entry_of event) (actions playbook),
      inc_timestamp = now_utc env (ticks (after_actions env event playbook self)),
      resolved = False\<rparr>"

text \<open>The log lines among a list of effects.\<close>

definition log_lines :: "effect list \<Rightarrow> (level \<times> string) list" where
  "log_lines es =
     List.map_filter (\<lambda>e. case e of Log l m \<Rightarrow> Some (l, m) | _ \<Rightarrow> None) es"

text \<open>The playbooks of the files a load gets through: those with a playbook file name.\<close>

definition yaml_named :: "string \<Rightarrow> bool" where
  "yaml_named filename = (endswith filename ''.yaml'' \<or> endswith filename ''.yml'')"

fun playbooks_of :: "(string \<times> (string + PlaybookConfig)) list \<Rightarrow> PlaybookConfig list" where
  "playbooks_of [] = []"
| "playbooks_of ((filename, Inr playbook) # rest) =
     (if yaml_named filename then playbook # playbooks_of rest else playbooks_of rest)"
| "playbooks_of ((filename, Inl e) # rest) = playbooks_of rest"

text \<open>No file of the list raises: a file that is read is well formed.\<close>

fun all_load :: "(string \<times> (string + PlaybookConfig)) list \<Rightarrow> bool" where
  "all_load [] = True"
| "all_load ((filename, Inr playbook) # rest) = all_load rest"
| "all_load ((filename, Inl e) # rest) = (\<not> yaml_named filename \<and> all_load rest)"

subsection \<open>Concrete inputs\<close>

definition t0 :: datetime where
  "t0 = \<lparr>dt_year = 2025, dt_month = 8, dt_day = 14, dt_hour = 9, dt_minute = 5,
         dt_second = 7, dt_microsecond = 0\<rparr>"

text \<open>A stand-in for \<^verbatim>\<open>isoformat\<close> on UTC instants, to the second.\<close>

definition iso_seconds :: "datetime \<Rightarrow> string" where
  "iso_seconds t =
     zero_pad 4 (dt_year t) @ ''-'' @ zero_pad 2 (dt_month t) @ ''-'' @ zero_pad 2 (dt_day t)
     @ ''T'' @ zero_pad 2 (dt_hour t) @ '':'' @ zero_pad 2 (dt_minute t) @ '':''
     @ zero_pad 2 (dt_second t) @ ''+00:00''"

text \<open>
  An environment where every call succeeds and the clock stands at \<open>t0\<close>; one where
  the search backend refuses every \<^verbatim>\<open>index\<close> call; one whose clock moves on by a
  millisecond at each reading, and one where it moves on by a second and every search
  returns the same record.
\<close>

definition env_ok :: env where
  "env_ok =
     \<lparr>es_client_raises = None, es_index_raises = (\<lambda>n. None),
      es_search_result = (\<lambda>n. Inr []), slack_post_raises = (\<lambda>n. None),
      now_local = (\<lambda>n. t0), now_utc = (\<lambda>n. t0), isoformat = iso_seconds,
      fromisoformat = (\<lambda>s. if s = iso_seconds t0 then Some t0 else None),
      validation_error = ''1 validation error for SecurityEvent'',
      SLACK_WEBHOOK_URL = [], EMAIL_SMTP_HOST = [], playbooks_dir = None\<rparr>"

definition env_down :: env where
  "env_down = env_ok\<lparr>es_index_raises := (\<lambda>n. Some ''Connection refused'')\<rparr>"

definition env_ms :: env where
  "env_ms =
     env_ok\<lparr>now_local := (\<lambda>n. t0\<lparr>dt_microsecond := 1000 * n\<rparr>),
            now_utc := (\<lambda>n. t0\<lparr>dt_microsecond := 1000 * n\<rparr>)\<rparr>"

definition sqli_record :: pydict where
  "sqli_record =
     [(''@timestamp'', PStr (iso_seconds t0)), (''event_type'', PStr ''sql_injection''),
      (''security_severity'', PStr ''critical''), (''source'', PStr ''waf''),
      (''source_ip'', PStr ''10.0.0.5''),
      (''message'', PStr ''Detected SQL Injection attempt''),
      (''tags'', PList [PStr ''web_attack''])]"

definition env_poll :: env where
  "env_poll =
     env_ok\<lparr>es_search_result := (\<lambda>n. Inr [sqli_record]),
            now_local := (\<lambda>n. t0\<lparr>dt_second := 7 + n\<rparr>),
            now_utc := (\<lambda>n. t0\<lparr>dt_second := 7 + n\<rparr>)\<rparr>"

definition ev_sqli :: SecurityEvent where
  "ev_sqli =
     \<lparr>timestamp = t0, event_type = ''sql_injection'', severity = ''critical'',
      source = ''waf'', source_ip = Some ''10.0.0.5'', user = None,
      description = ''Detected SQL Injection attempt'', raw_data = sqli_record,
      tags = [''web_attack'']\<rparr>"

definition pb_sqli :: PlaybookConfig where
  "pb_sqli =
     \<lparr>name = ''sqli-response'', triggers = [''sql_injection''], severity_threshold = ''high'',
      actions = [[(''type'', PStr ''block_ip'')], [(''type'', PStr ''send_alert'')]],
      enabled = True\<rparr>"

definition pb_alert :: PlaybookConfig where
  "pb_alert =
     \<lparr>name = ''web-attack-alert'', triggers = [''web_attack''], severity_threshold = ''medium'',
      actions = [[(''type'', PStr ''send_alert'')]], enabled = True\<rparr>"

definition pb_unknown :: PlaybookConfig where
  "pb_unknown =
     \<lparr>name = ''quarantine'', triggers = [''sql_injection''], severity_threshold = ''high'',
      actions = [[(''type'', PStr ''quarantine_file'')], [(''type'', PStr ''send_alert'')]],
      enabled = True\<rparr>"

definition pb_targets :: PlaybookConfig where
  "pb_targets =
     \<lparr>name = ''lockdown'', triggers = [''authentication_failure''],
      severity_threshold = ''high'',
      actions = [[(''type'', PStr ''block_ip'')], [(''type'', PStr ''disable_user'')],
                 [(''type'', PStr ''isolate_host'')]],
      enabled = True\<rparr>"

text \<open>An event whose type and tag are written in capitals, and one with no address and no user.\<close>

definition ev_upper :: SecurityEvent where
  "ev_upper =
     \<lparr>timestamp = t0, event_type = ''SQL_Injection'', severity = ''critical'',
      source = ''waf'', source_ip = Some ''10.0.0.5'', user = None,
      description = ''Suspicious request blocked'', raw_data = [], tags = [''WEB_ATTACK'']\<rparr>"

definition ev_anon :: SecurityEvent where
  "ev_anon =
     \<lparr>timestamp = t0, event_type = ''authentication_failure'', severity = ''high'',
      source = ''auth'', source_ip = None, user = None,
      description = ''Repeated login failures'', raw_data = [], tags = []\<rparr>"

text \<open>A playbook directory whose second file does not parse.\<close>

definition env_files :: env where
  "env_files =
     env_ok\<lparr>playbooks_dir :=
       Some (Inr [(''a.yaml'', Inr pb_sqli),
                  (''b.yaml'', Inl ''mapping values are not allowed here''),
                  (''c.yaml'', Inr pb_alert)])\<rparr>"

text \<open>An orchestrator that has loaded two playbooks, both of which match \<open>ev_sqli\<close>.\<close>

definition two_playbooks :: orchestrator where
  "two_playbooks = new_orchestrator\<lparr>playbooks := [pb_sqli, pb_alert]\<rparr>"

section \<open>Properties\<close>

subsection \<open>Strings and the matcher\<close>




subsection \<open>The capabilities only add effects\<close>

lemmas world_defs = logger_def emit_def tick_def datetime_now_utc_def datetime_now_def
  es_index_def slack_post_def

lemma quiet_refl: "quiet s s"
  by (simp add: quiet_def)

lemma quiet_trans: "quiet a b \<Longrightarrow> quiet b c \<Longrightarrow> quiet a c"
  by (auto simp: quiet_def)

lemma quiet_block_ip_address: "quiet s (block_ip_address env ip params s)"
  by (simp add: quiet_def block_ip_address_def Let_def world_defs is_put_def
      split: sum.splits option.splits)

lemma quiet_disable_user_account: "quiet s (disable_user_account env u params s)"
  by (simp add: quiet_def disable_user_account_def Let_def world_defs is_put_def
      split: sum.splits option.splits)

lemma quiet_isolate_host: "quiet s (isolate_host env ip params s)"
  by (simp add: quiet_def isolate_host_def Let_def world_defs is_put_def
      split: sum.splits option.splits)

lemma quiet_send_security_alert: "quiet s (send_security_alert env event params s)"
  by (simp add: quiet_def send_security_alert_def send_slack_alert_def send_email_alert_def
      Let_def world_defs is_put_def split: sum.splits option.splits)

lemma quiet_create_incident_ticket: "quiet s (create_incident_ticket env event params s)"
  by (simp add: quiet_def create_incident_ticket_def Let_def world_defs is_put_def
      split: sum.splits option.splits)

subsection \<open>The action loop\<close>

lemma run_action_fst:
  "fst (run_action env event a (taken, s)) =
     taken @ (case entry_of event a of None \<Rightarrow> [] | Some e \<Rightarrow> [e])"
  by (simp add: run_action_def entry_of_def Let_def)

lemma run_action_quiet: "quiet s (snd (run_action env event a (taken, s)))"
  by (simp add: run_action_def Let_def quiet_refl quiet_block_ip_address
      quiet_disable_user_account quiet_isolate_host quiet_send_security_alert
      quiet_create_incident_ticket)

lemma run_actions_fst:
  "fst (run_actions env event as (taken, s)) = taken @ List.map_filter (entry_of event) as"
proof (induction as arbitrary: taken s)
  case Nil
  show ?case by (simp add: List.map_filter_simps)
next
  case (Cons a as)
  obtain taken' s' where step: "run_action env event a (taken, s) = (taken', s')"
    by (cases "run_action env event a (taken, s)")
  have "taken' = taken @ (case entry_of event a of None \<Rightarrow> [] | Some e \<Rightarrow> [e])"
    using run_action_fst [of env event a taken s] step by simp
  then show ?case
    using Cons.IH [of taken' s'] step
    by (simp add: List.map_filter_simps split: option.splits)
qed

lemma run_actions_quiet: "quiet s (snd (run_actions env event as (taken, s)))"
proof (induction as arbitrary: taken s)
  case Nil
  show ?case by (simp add: quiet_refl)
next
  case (Cons a as)
  obtain taken' s' where step: "run_action env event a (taken, s) = (taken', s')"
    by (cases "run_action env event a (taken, s)")
  have "quiet s s'"
    using run_action_quiet [of s env event a taken] step by simp
  moreover have "quiet s' (snd (run_actions env event as (taken', s')))"
    by (rule Cons.IH)
  ultimately show ?case
    using step by (auto intro: quiet_trans)
qed

subsection \<open>One dispatch\<close>

lemma map_of_dict_set: "map_of (dict_set d k v) k = Some v"
  by (induction d k v rule: dict_set.induct) auto

lemma execute_playbook_unfold:
  "execute_playbook env event playbook self =
     (let s3 = after_actions env event playbook self;
          iid = dispatch_id env event self;
          incident = dispatched_incident env event playbook self;
          s5 = emit (IncidentPut iid)
                 ((tick s3)\<lparr>incidents := dict_set (incidents s3) iid incident\<rparr>)
      in logger INFO (''Playbook execution completed for incident '' @ iid)
           (store_incident env incident s5))"
proof -
  obtain taken s3 where r: "run_actions env event (actions playbook)
      ([], before_actions env event playbook self) = (taken, s3)"
    by (cases "run_actions env event (actions playbook)
          ([], before_actions env event playbook self)")
  have t: "taken = List.map_filter (entry_of event) (actions playbook)"
    using run_actions_fst [of env event "actions playbook" "[]"
        "before_actions env event playbook self"] r
    by simp
  show ?thesis
    using r t
    by (simp add: execute_playbook_def Let_def datetime_now_def datetime_now_utc_def
        after_actions_def before_actions_def dispatch_id_def dispatched_incident_def tick_def)
qed

lemma quiet_after_actions: "quiet self (after_actions env event playbook self)"
proof -
  have "quiet self (before_actions env event playbook self)"
    by (simp add: before_actions_def quiet_def logger_def emit_def tick_def is_put_def)
  then show ?thesis
    unfolding after_actions_def using run_actions_quiet quiet_trans by blast
qed

lemma incidents_execute_playbook:
  "incidents (execute_playbook env event playbook self) =
     dict_set (incidents self) (dispatch_id env event self)
       (dispatched_incident env event playbook self)"
  using quiet_after_actions [of self env event playbook]
  by (simp add: execute_playbook_unfold Let_def store_incident_def world_defs quiet_def
      split: option.splits)

lemma playbooks_execute_playbook:
  "playbooks (execute_playbook env event playbook self) = playbooks self"
  using quiet_after_actions [of self env event playbook]
  by (simp add: execute_playbook_unfold Let_def store_incident_def world_defs quiet_def
      split: option.splits)

lemma run_actions_append:
  "run_actions env event (xs @ ys) st = run_actions env event ys (run_actions env event xs st)"
  by (induction xs arbitrary: st) auto

lemma dispatched_incident_stored:
  "map_of (incidents (execute_playbook env event playbook self))
     (make_incident_id (now_local env (ticks self)) event)
   = Some (dispatched_incident env event playbook self)"
  by (simp add: incidents_execute_playbook map_of_dict_set dispatch_id_def)

subsection \<open>Event intake\<close>

lemma incident_puts_quiet: "quiet s s' \<Longrightarrow> incident_puts s' = incident_puts s"
  by (auto simp: quiet_def incident_puts_def)

lemma incident_puts_execute_playbook:
  "incident_puts (execute_playbook env event playbook self) = Suc (incident_puts self)"
  using incident_puts_quiet [OF quiet_after_actions [of self env event playbook]]
  by (simp add: execute_playbook_unfold Let_def store_incident_def world_defs
      incident_puts_def is_put_def split: option.splits)

lemma dispatch_playbooks_puts:
  "incident_puts (dispatch_playbooks env event pbs s) =
     incident_puts s + length (filter (event_matches_playbook event) pbs)"
  by (induction pbs arbitrary: s) (simp_all add: incident_puts_execute_playbook)

lemma dispatch_playbooks_playbooks:
  "playbooks (dispatch_playbooks env event pbs s) = playbooks s"
  by (induction pbs arbitrary: s) (simp_all add: playbooks_execute_playbook)

lemma snd_make_event: "snd (make_event env event_data self) = tick self"
  by (simp add: make_event_def datetime_now_utc_def)

lemma incident_puts_tick: "incident_puts (tick s) = incident_puts s"
  by (simp add: incident_puts_def tick_def)

lemma playbooks_tick: "playbooks (tick s) = playbooks s"
  by (simp add: tick_def)

lemma process_security_event_puts:
  assumes "fst (make_event env event_data self) = Inr event"
  shows "incident_puts (process_security_event env event_data self) =
     incident_puts self + length (filter (event_matches_playbook event) (playbooks self))"
proof -
  have "make_event env event_data self = (Inr event, tick self)"
    using assms snd_make_event [of env event_data self]
    by (cases "make_event env event_data self") simp
  then show ?thesis
    by (simp add: process_security_event_def dispatch_playbooks_puts incident_puts_tick playbooks_tick)
qed

lemma process_security_event_playbooks:
  "playbooks (process_security_event env event_data self) = playbooks self"
proof -
  obtain r where "make_event env event_data self = (r, tick self)"
    using snd_make_event [of env event_data self]
    by (cases "make_event env event_data self") simp
  then show ?thesis
    by (cases r)
      (simp_all add: process_security_event_def dispatch_playbooks_playbooks tick_def
        logger_def emit_def)
qed

subsection \<open>Evaluation on concrete inputs\<close>

lemmas eval_defs = execute_playbook_def run_action_def block_ip_address_def
  disable_user_account_def isolate_host_def send_security_alert_def send_slack_alert_def
  send_email_alert_def create_incident_ticket_def store_incident_def incident_dict_def
  make_incident_id_def strftime_id_def iso_seconds_def zero_pad_def digit_char_def
  dict_get_def falsy_def opt_val_def world_defs Let_def new_orchestrator_def

lemmas input_defs = t0_def env_ok_def env_down_def env_ms_def env_poll_def sqli_record_def
  ev_sqli_def pb_sqli_def pb_alert_def pb_unknown_def pb_targets_def ev_upper_def ev_anon_def
  env_files_def two_playbooks_def

lemmas match_defs = event_matches_playbook_def severity_get_def severity_levels_def
  trigger_hits_def lower_def lower_char_def

lemma build_event_sqli:
  "fromisoformat env (iso_seconds t0) = Some t0 \<Longrightarrow> build_event env sqli_record now = Inr ev_sqli"
  by (simp add: build_event_def sqli_record_def ev_sqli_def dict_get_def)

lemma make_event_sqli:
  "fromisoformat env (iso_seconds t0) = Some t0 \<Longrightarrow>
     make_event env sqli_record s = (Inr ev_sqli, tick s)"
  by (simp add: make_event_def datetime_now_utc_def build_event_sqli)

lemma matches_sqli: "event_matches_playbook ev_sqli pb_sqli"
  by (simp add: match_defs ev_sqli_def pb_sqli_def)

lemma matches_alert: "event_matches_playbook ev_sqli pb_alert"
  by (simp add: match_defs ev_sqli_def pb_alert_def)

lemma map_fst_dict_set:
  "map fst (dict_set d k v) = (if k \<in> set (map fst d) then map fst d else map fst d @ [k])"
  by (induction d k v rule: dict_set.induct) auto

section \<open>The claims\<close>

subsection \<open>C1: a failing action\<close>




subsection \<open>C2: the severity gate and unknown severities\<close>

lemma severity_get_unknown:
  "s \<notin> fst ` set severity_levels \<Longrightarrow> severity_get s dflt = dflt"
  by (simp add: severity_get_def severity_levels_def)

lemma severity_get_le_5: "severity_get s 0 \<le> 5"
  by (simp add: severity_get_def severity_levels_def)

lemma severity_get_eq_5: "severity_get s 0 = 5 \<longleftrightarrow> s = ''critical''"
  by (simp add: severity_get_def severity_levels_def)

text \<open>
  C2, as the code has it.  The two lookups of the gate have different defaults: an unknown
  severity of the event ranks 0, an unknown threshold of the playbook ranks 5, the rank of
  critical.  So a playbook whose threshold is none of the five names passes the gate for
  the events of severity critical and for no others, and an event of unknown severity
  passes no gate at all.
\<close>

theorem C2_unknown_threshold_is_highest:
  "(severity_threshold playbook \<notin> fst ` set severity_levels \<longrightarrow>
      severity_get (severity_threshold playbook) 5 = 5 \<and>
      (event_matches_playbook event playbook \<longleftrightarrow>
         enabled playbook \<and> severity event = ''critical'' \<and>
         check_triggers event (triggers playbook))) \<and>
   (severity event \<notin> fst ` set severity_levels \<longrightarrow>
      severity_get (severity event) 0 = 0 \<and> \<not> event_matches_playbook event playbook)"
proof -
  have a: "event_matches_playbook event playbook \<longleftrightarrow>
         enabled playbook \<and> severity event = ''critical'' \<and>
         check_triggers event (triggers playbook)"
    if "severity_threshold playbook \<notin> fst ` set severity_levels"
  proof -
    have "severity_get (severity_threshold playbook) 5 = 5"
      using that by (rule severity_get_unknown)
    moreover have "\<not> severity_get (severity event) 0 < 5 \<longleftrightarrow> severity event = ''critical''"
      using severity_get_le_5 [of "severity event"] severity_get_eq_5 [of "severity event"]
      by auto
    ultimately show ?thesis
      by (auto simp: event_matches_playbook_def Let_def)
  qed
  have b: "\<not> event_matches_playbook event playbook"
    if "severity event \<notin> fst ` set severity_levels"
  proof -
    have "severity_get (severity event) 0 = 0"
      using that by (rule severity_get_unknown)
    moreover have "0 < severity_get (severity_threshold playbook) 5"
      by (simp add: severity_get_def severity_levels_def)
    ultimately show ?thesis
      by (simp add: event_matches_playbook_def Let_def)
  qed
  show ?thesis
    using a b severity_get_unknown by blast
qed

text \<open>
  The threshold "urgent" is unknown; an event of severity high whose type the trigger
  matches does not pass.
\<close>

theorem C2_counterexample:
  "''urgent'' \<notin> fst ` set severity_levels \<and>
   enabled (pb_sqli\<lparr>severity_threshold := ''urgent''\<rparr>) \<and>
   check_triggers (ev_sqli\<lparr>severity := ''high''\<rparr>) (triggers (pb_sqli\<lparr>severity_threshold := ''urgent''\<rparr>)) \<and>
   \<not> event_matches_playbook (ev_sqli\<lparr>severity := ''high''\<rparr>) (pb_sqli\<lparr>severity_threshold := ''urgent''\<rparr>)"
  by (simp add: match_defs input_defs)

theorem C2_witness:
  "severity_threshold (pb_sqli\<lparr>severity_threshold := ''urgent''\<rparr>) \<notin> fst ` set severity_levels \<and>
   severity (ev_sqli\<lparr>severity := ''severe''\<rparr>) \<notin> fst ` set severity_levels \<and>
   severity_get ''urgent'' 5 = 5 \<and>
   event_matches_playbook ev_sqli (pb_sqli\<lparr>severity_threshold := ''urgent''\<rparr>) \<and>
   severity_get ''severe'' 0 = 0 \<and>
   \<not> event_matches_playbook (ev_sqli\<lparr>severity := ''severe''\<rparr>) pb_sqli"
proof -
  have h1: "severity_threshold (pb_sqli\<lparr>severity_threshold := ''urgent''\<rparr>) \<notin> fst ` set severity_levels"
    by (simp add: severity_levels_def)
  have h2: "severity (ev_sqli\<lparr>severity := ''severe''\<rparr>) \<notin> fst ` set severity_levels"
    by (simp add: severity_levels_def)
  have t: "check_triggers ev_sqli (triggers (pb_sqli\<lparr>severity_threshold := ''urgent''\<rparr>))
      \<and> enabled (pb_sqli\<lparr>severity_threshold := ''urgent''\<rparr>) \<and> severity ev_sqli = ''critical''"
    by (simp add: match_defs input_defs)
  show ?thesis
    using h1 h2 t
      C2_unknown_threshold_is_highest [of "pb_sqli\<lparr>severity_threshold := ''urgent''\<rparr>" ev_sqli]
      C2_unknown_threshold_is_highest [of pb_sqli "ev_sqli\<lparr>severity := ''severe''\<rparr>"]
    by simp
qed

subsection \<open>C3: the trigger test\<close>





subsection \<open>C4: when the incident is created\<close>

lemma trace_execute_playbook:
  "\<exists>post. trace (execute_playbook env event playbook self) =
     trace (after_actions env event playbook self) @ IncidentPut (dispatch_id env event self) # post"
  by (simp add: execute_playbook_unfold Let_def store_incident_def world_defs
      split: option.splits)

text \<open>
  C4, as the code has it.  The incident is built and stored after the action loop.  After
  any number \<open>n\<close> of the actions, and at the end of the loop, \<^verbatim>\<open>self.incidents\<close>
  is as it was before the dispatch; the store into it comes after every effect of the
  actions, and the incident stored has the status "active".
\<close>

theorem C4_incident_created_after_actions:
  "incidents (snd (run_actions env event (take n (actions playbook))
                     ([], before_actions env event playbook self))) = incidents self \<and>
   incidents (after_actions env event playbook self) = incidents self \<and>
   (\<exists>acts post.
      trace (after_actions env event playbook self) =
        trace (before_actions env event playbook self) @ acts \<and>
      filter is_put acts = [] \<and>
      trace (execute_playbook env event playbook self) =
        trace (before_actions env event playbook self) @ acts
        @ IncidentPut (dispatch_id env event self) # post) \<and>
   (\<exists>incident.
      map_of (incidents (execute_playbook env event playbook self))
        (dispatch_id env event self) = Some incident \<and>
      status incident = ''active'')"
proof -
  have q: "quiet (before_actions env event playbook self) (after_actions env event playbook self)"
    unfolding after_actions_def by (rule run_actions_quiet)
  then obtain acts where acts:
    "trace (after_actions env event playbook self) =
       trace (before_actions env event playbook self) @ acts"
    "filter is_put acts = []"
    by (auto simp: quiet_def)
  obtain post where post:
    "trace (execute_playbook env event playbook self) =
       trace (after_actions env event playbook self) @ IncidentPut (dispatch_id env event self) # post"
    using trace_execute_playbook by blast
  have a: "incidents (after_actions env event playbook self) = incidents self"
    using quiet_after_actions [of self env event playbook] by (simp add: quiet_def)
  have "quiet (before_actions env event playbook self)
      (snd (run_actions env event (take n (actions playbook))
              ([], before_actions env event playbook self)))"
    by (rule run_actions_quiet)
  moreover have "incidents (before_actions env event playbook self) = incidents self"
    by (simp add: before_actions_def logger_def emit_def tick_def)
  ultimately have n: "incidents (snd (run_actions env event (take n (actions playbook))
      ([], before_actions env event playbook self))) = incidents self"
    by (simp add: quiet_def)
  have c: "map_of (incidents (execute_playbook env event playbook self))
        (dispatch_id env event self) = Some (dispatched_incident env event playbook self)
      \<and> status (dispatched_incident env event playbook self) = ''active''"
    using dispatched_incident_stored [of env event playbook self]
    by (simp add: dispatch_id_def dispatched_incident_def)
  show ?thesis
    using n a acts post c by auto
qed

text \<open>
  From an orchestrator with no incident: the first address is blocked and the alert is
  sent before the incident is stored.
\<close>

theorem C4_counterexample:
  "incidents new_orchestrator = [] \<and>
   take 5 (trace (execute_playbook env_ok ev_sqli pb_sqli new_orchestrator)) =
     [Log INFO (''Executing playbook '' @ [CHR 0x27] @ ''sqli-response'' @ [CHR 0x27]
                @ '' for incident incident-20250814-090507-sql_injection''),
      Log WARNING ''SECURITY ACTION: Blocking IP address 10.0.0.5'',
      EsIndex ''security-blocklist''
        [(''ip_address'', PStr ''10.0.0.5''), (''action'', PStr ''block''),
         (''timestamp'', PStr ''2025-08-14T09:05:07+00:00''),
         (''reason'', PStr ''Automated security response''),
         (''duration'', PStr ''1h'')]
        None,
      Log INFO ''Security alert sent successfully'',
      IncidentPut ''incident-20250814-090507-sql_injection''] \<and>
   incidents (after_actions env_ok ev_sqli pb_sqli new_orchestrator) = []"
  by (simp add: eval_defs input_defs str_nat.simps after_actions_def before_actions_def
      dispatch_id_def)

subsection \<open>C5: an action of unknown type\<close>

lemma run_action_unknown:
  "dict_get action ''type'' PNone \<notin> set known_types \<Longrightarrow> run_action env event action st = st"
  by (cases st) (simp add: run_action_def known_types_def Let_def)

lemma execute_playbook_actions_cong:
  assumes "run_actions env event (actions p) = run_actions env event (actions q)"
    and "name p = name q"
  shows "execute_playbook env event p self = execute_playbook env event q self"
  using assms by (simp add: execute_playbook_def)

text \<open>
  C5, as the code has it.  The chain of tests on the action type has no last branch: an
  action whose type is none of the five is passed over with no log line and no entry in
  \<^verbatim>\<open>actions_taken\<close>, and the dispatch is the one of the playbook without that
  action, so the other actions run.
\<close>

theorem C5_unknown_type_skipped:
  assumes "dict_get action ''type'' PNone \<notin> set known_types"
  shows "run_action env event action st = st \<and>
     run_actions env event (pre @ action # post) st = run_actions env event (pre @ post) st \<and>
     execute_playbook env event (playbook\<lparr>actions := pre @ action # post\<rparr>) self =
       execute_playbook env event (playbook\<lparr>actions := pre @ post\<rparr>) self"
proof -
  have a: "run_action env event action s = s" for s
    using assms by (rule run_action_unknown)
  have b: "run_actions env event (pre @ action # post) s = run_actions env event (pre @ post) s"
    for s
    by (simp add: run_actions_append a)
  have "execute_playbook env event (playbook\<lparr>actions := pre @ action # post\<rparr>) self =
       execute_playbook env event (playbook\<lparr>actions := pre @ post\<rparr>) self"
    by (rule execute_playbook_actions_cong) (auto simp: b)
  then show ?thesis
    using a b by simp
qed

text \<open>
  A playbook with the unknown action "quarantine_file" before "send_alert": one entry,
  and no log line about the unknown type.
\<close>

theorem C5_counterexample:
  "actions pb_unknown = [[(''type'', PStr ''quarantine_file'')], [(''type'', PStr ''send_alert'')]] \<and>
   map (actions_taken \<circ> snd) (incidents (execute_playbook env_ok ev_sqli pb_unknown new_orchestrator))
     = [[''Sent security alert'']] \<and>
   log_lines (trace (execute_playbook env_ok ev_sqli pb_unknown new_orchestrator)) =
     [(INFO, ''Executing playbook '' @ [CHR 0x27] @ ''quarantine'' @ [CHR 0x27]
             @ '' for incident incident-20250814-090507-sql_injection''),
      (INFO, ''Security alert sent successfully''),
      (INFO, ''Playbook execution completed for incident incident-20250814-090507-sql_injection'')]"
  by (simp add: eval_defs input_defs str_nat.simps log_lines_def List.map_filter_simps)

theorem C5_witness:
  "dict_get [(''type'', PStr ''quarantine_file'')] ''type'' PNone \<notin> set known_types \<and>
   run_action env_ok ev_sqli [(''type'', PStr ''quarantine_file'')] ([], new_orchestrator)
     = ([], new_orchestrator) \<and>
   run_actions env_ok ev_sqli (actions pb_unknown) ([], new_orchestrator) =
     run_actions env_ok ev_sqli [[(''type'', PStr ''send_alert'')]] ([], new_orchestrator) \<and>
   execute_playbook env_ok ev_sqli pb_unknown new_orchestrator =
     execute_playbook env_ok ev_sqli
       (pb_unknown\<lparr>actions := [[(''type'', PStr ''send_alert'')]]\<rparr>) new_orchestrator"
proof -
  have h: "dict_get [(''type'', PStr ''quarantine_file'')] ''type'' PNone \<notin> set known_types"
    by (simp add: dict_get_def known_types_def)
  have p: "pb_unknown\<lparr>actions := [] @ [(''type'', PStr ''quarantine_file'')]
              # [[(''type'', PStr ''send_alert'')]]\<rparr> = pb_unknown"
    by (simp add: pb_unknown_def)
  show ?thesis
    using h p
      C5_unknown_type_skipped [OF h, of env_ok ev_sqli "([], new_orchestrator)" "[]"
        "[[(''type'', PStr ''send_alert'')]]" pb_unknown new_orchestrator]
    by (simp add: pb_unknown_def)
qed

subsection \<open>C6: processing the same event again\<close>

text \<open>
  C6, as the code has it.  The monitor keeps no record of the events it has seen.  Each
  time a record is processed, one incident is stored for every playbook the event matches,
  whatever was processed before; processing the same record a second time stores as many
  again.
\<close>

theorem C6_every_processing_dispatches:
  assumes "fst (make_event env event_data self) = Inr event"
    and "fst (make_event env event_data (process_security_event env event_data self)) = Inr event'"
  shows "incident_puts (process_security_event env event_data self) =
       incident_puts self + length (filter (event_matches_playbook event) (playbooks self)) \<and>
     incident_puts
       (process_security_event env event_data (process_security_event env event_data self)) =
       incident_puts self + length (filter (event_matches_playbook event) (playbooks self))
       + length (filter (event_matches_playbook event') (playbooks self))"
  using process_security_event_puts [OF assms(1)] process_security_event_puts [OF assms(2)]
  by (simp add: process_security_event_playbooks)

lemma ticks_execute_playbook_sqli:
  "ticks (execute_playbook env_poll ev_sqli pb_sqli s) = ticks s + 5"
  by (simp add: eval_defs input_defs)

lemma poll_step:
  assumes "playbooks s = [pb_sqli]"
  shows "monitor_poll env_poll s =
     emit (Sleep 10) (execute_playbook env_poll ev_sqli pb_sqli (tick (emit (EsSearch None) (tick s))))"
proof -
  have f: "fromisoformat env_poll (iso_seconds t0) = Some t0"
    by (simp add: env_poll_def env_ok_def)
  have e: "es_search env_poll s = (Inr [sqli_record], emit (EsSearch None) (tick s))"
    by (simp add: es_search_def env_poll_def env_ok_def)
  have p: "playbooks (tick (emit (EsSearch None) (tick s))) = [pb_sqli]"
    using assms by (simp add: tick_def emit_def)
  show ?thesis
    by (simp add: monitor_poll_def e process_security_event_def make_event_sqli [OF f] p
        matches_sqli)
qed

lemma now_local_env_poll: "now_local env_poll n = t0\<lparr>dt_second := 7 + n\<rparr>"
  by (simp add: env_poll_def env_ok_def)

lemma poll_step_facts:
  assumes "playbooks s = [pb_sqli]"
  shows "map fst (incidents (monitor_poll env_poll s)) =
       map fst (dict_set (incidents s)
         (make_incident_id (t0\<lparr>dt_second := 9 + ticks s\<rparr>) ev_sqli) undefined)"
    and "ticks (monitor_poll env_poll s) = ticks s + 7"
    and "playbooks (monitor_poll env_poll s) = [pb_sqli]"
proof -
  show "map fst (incidents (monitor_poll env_poll s)) =
       map fst (dict_set (incidents s)
         (make_incident_id (t0\<lparr>dt_second := 9 + ticks s\<rparr>) ev_sqli) undefined)"
    unfolding poll_step [OF assms]
    by (simp add: emit_def incidents_execute_playbook map_fst_dict_set
        dispatch_id_def tick_def now_local_env_poll)
  show "ticks (monitor_poll env_poll s) = ticks s + 7"
    unfolding poll_step [OF assms]
    by (simp add: emit_def ticks_execute_playbook_sqli tick_def)
  show "playbooks (monitor_poll env_poll s) = [pb_sqli]"
    unfolding poll_step [OF assms]
    using assms by (simp add: emit_def playbooks_execute_playbook tick_def)
qed

lemma two_polls: "monitor_security_events 2 env self = monitor_poll env (monitor_poll env self)"
  by (simp add: numeral_2_eq_2)

text \<open>
  Two polls that return the same record, the second dispatch seven seconds after the
  first: two incidents for the one event and the one playbook.
\<close>

theorem C6_counterexample:
  "es_search_result env_poll 0 = Inr [sqli_record] \<and>
   es_search_result env_poll 7 = Inr [sqli_record] \<and>
   map fst (incidents (monitor_security_events 2 env_poll
                         (new_orchestrator\<lparr>playbooks := [pb_sqli]\<rparr>))) =
     [''incident-20250814-090509-sql_injection'', ''incident-20250814-090516-sql_injection'']"
proof -
  let ?s0 = "new_orchestrator\<lparr>playbooks := [pb_sqli]\<rparr>"
  let ?s1 = "monitor_poll env_poll ?s0"
  have p0: "playbooks ?s0 = [pb_sqli]" by simp
  have i0: "incidents ?s0 = [] \<and> ticks ?s0 = 0"
    by (simp add: new_orchestrator_def)
  note one = poll_step_facts [OF p0]
  note two = poll_step_facts [OF one(3)]
  have id1: "make_incident_id (t0\<lparr>dt_second := 9\<rparr>) ev_sqli
      = ''incident-20250814-090509-sql_injection''"
    by (simp add: make_incident_id_def strftime_id_def zero_pad_def digit_char_def
        str_nat.simps t0_def ev_sqli_def)
  have id2: "make_incident_id (t0\<lparr>dt_second := 16\<rparr>) ev_sqli
      = ''incident-20250814-090516-sql_injection''"
    by (simp add: make_incident_id_def strftime_id_def zero_pad_def digit_char_def
        str_nat.simps t0_def ev_sqli_def)
  have t1: "ticks ?s1 = 7"
    using one(2) i0 by simp
  have m1: "map fst (incidents ?s1) = [''incident-20250814-090509-sql_injection'']"
    using one(1) i0 id1 by simp
  have "map fst (incidents (monitor_poll env_poll ?s1)) =
     [''incident-20250814-090509-sql_injection'', ''incident-20250814-090516-sql_injection'']"
    using two(1) t1 m1 id2 by (simp add: map_fst_dict_set)
  then show ?thesis
    by (simp add: two_polls env_poll_def env_ok_def)
qed

theorem C6_witness:
  "fst (make_event env_poll sqli_record two_playbooks) = Inr ev_sqli \<and>
   fst (make_event env_poll sqli_record
          (process_security_event env_poll sqli_record two_playbooks)) = Inr ev_sqli \<and>
   incident_puts (process_security_event env_poll sqli_record two_playbooks) = 2 \<and>
   incident_puts (process_security_event env_poll sqli_record
                    (process_security_event env_poll sqli_record two_playbooks)) = 4"
proof -
  have f: "fromisoformat env_poll (iso_seconds t0) = Some t0"
    by (simp add: env_poll_def env_ok_def)
  have h1: "fst (make_event env_poll sqli_record two_playbooks) = Inr ev_sqli"
    by (simp add: make_event_sqli [OF f])
  have h2: "fst (make_event env_poll sqli_record
          (process_security_event env_poll sqli_record two_playbooks)) = Inr ev_sqli"
    by (simp add: make_event_sqli [OF f])
  have n: "incident_puts two_playbooks = 0 \<and>
      length (filter (event_matches_playbook ev_sqli) (playbooks two_playbooks)) = 2"
    by (simp add: two_playbooks_def new_orchestrator_def incident_puts_def matches_sqli
        matches_alert)
  show ?thesis
    using h1 h2 n C6_every_processing_dispatches [OF h1 h2] by simp
qed

subsection \<open>C7: incident ids\<close>

lemma dispatch_id_env_ms:
  "dispatch_id env_ms ev_sqli s = ''incident-20250814-090507-sql_injection''"
  by (simp add: dispatch_id_def env_ms_def env_ok_def make_incident_id_def strftime_id_def
      zero_pad_def digit_char_def str_nat.simps t0_def ev_sqli_def)

text \<open>
  C7 on the code: one event that matches two playbooks, dispatched within the same second
  (the clock moves on by a millisecond at each reading).  Two incidents are stored under the
  same id, and the store holds only the second: the incident of the first playbook, with
  its blocked address, is overwritten.
\<close>

theorem C7_same_second_overwrites:
  "incident_puts (process_security_event env_ms sqli_record two_playbooks) = 2 \<and>
   map fst (incidents (process_security_event env_ms sqli_record two_playbooks)) =
     [''incident-20250814-090507-sql_injection''] \<and>
   map (actions_taken \<circ> snd) (incidents (process_security_event env_ms sqli_record two_playbooks))
     = [[''Sent security alert'']]"
proof -
  have f: "fromisoformat env_ms (iso_seconds t0) = Some t0"
    by (simp add: env_ms_def env_ok_def)
  have m: "fst (make_event env_ms sqli_record two_playbooks) = Inr ev_sqli"
    by (simp add: make_event_sqli [OF f])
  have n: "incident_puts two_playbooks = 0 \<and>
      length (filter (event_matches_playbook ev_sqli) (playbooks two_playbooks)) = 2"
    by (simp add: two_playbooks_def new_orchestrator_def incident_puts_def matches_sqli
        matches_alert)
  have a: "incident_puts (process_security_event env_ms sqli_record two_playbooks) = 2"
    using process_security_event_puts [OF m] n by simp
  have p: "process_security_event env_ms sqli_record two_playbooks =
      execute_playbook env_ms ev_sqli pb_alert
        (execute_playbook env_ms ev_sqli pb_sqli (tick two_playbooks))"
    by (simp add: process_security_event_def make_event_sqli [OF f] matches_sqli matches_alert
        two_playbooks_def new_orchestrator_def tick_def)
  have e: "List.map_filter (entry_of ev_sqli) (actions pb_alert) = [''Sent security alert'']"
    by (simp add: List.map_filter_simps entry_of_def dict_get_def pb_alert_def)
  have i: "incidents (tick two_playbooks) = []"
    by (simp add: tick_def two_playbooks_def new_orchestrator_def)
  have b: "incidents (process_security_event env_ms sqli_record two_playbooks) =
      [(''incident-20250814-090507-sql_injection'',
        dispatched_incident env_ms ev_sqli pb_alert
          (execute_playbook env_ms ev_sqli pb_sqli (tick two_playbooks)))]"
    by (simp add: p incidents_execute_playbook dispatch_id_env_ms i)
  show ?thesis
    using a by (simp add: b dispatched_incident_def e)
qed

subsection \<open>C8: the first end-to-end scenario\<close>

text \<open>
  C8.  Whatever the other fields of the event and the playbook, the parameters of the two
  actions, the environment and the state of the orchestrator: a critical "sql_injection"
  event from 10.0.0.5 matches the enabled playbook with trigger "sql_injection", threshold
  "high" and the actions block_ip and send_alert, and the dispatch stores an incident whose
  \<^verbatim>\<open>actions_taken\<close> is "Blocked IP: 10.0.0.5", "Sent security alert" and whose status
  is "active".
\<close>

theorem C8_scenario:
  fixes event0 :: SecurityEvent and playbook0 :: PlaybookConfig and p1 p2 :: pyval
  defines "event \<equiv> event0\<lparr>severity := ''critical'', event_type := ''sql_injection'',
                            source_ip := Some ''10.0.0.5''\<rparr>"
    and "playbook \<equiv> playbook0\<lparr>triggers := [''sql_injection''], severity_threshold := ''high'',
            actions := [[(''type'', PStr ''block_ip''), (''params'', p1)],
                        [(''type'', PStr ''send_alert''), (''params'', p2)]],
            enabled := True\<rparr>"
  shows "event_matches_playbook event playbook \<and>
     (\<exists>incident.
        map_of (incidents (execute_playbook env event playbook self))
          (make_incident_id (now_local env (ticks self)) event) = Some incident \<and>
        actions_taken incident = [''Blocked IP: 10.0.0.5'', ''Sent security alert''] \<and>
        status incident = ''active'')"
proof -
  have m: "event_matches_playbook event playbook"
    by (simp add: event_def playbook_def event_matches_playbook_def severity_get_def
        severity_levels_def trigger_hits_def)
  have "List.map_filter (entry_of event) (actions playbook)
      = [''Blocked IP: 10.0.0.5'', ''Sent security alert'']"
    by (simp add: event_def playbook_def List.map_filter_simps entry_of_def dict_get_def)
  then have "actions_taken (dispatched_incident env event playbook self)
      = [''Blocked IP: 10.0.0.5'', ''Sent security alert'']
    \<and> status (dispatched_incident env event playbook self) = ''active''"
    by (simp add: dispatched_incident_def)
  then show ?thesis
    using m dispatched_incident_stored [of env event playbook self] by blast
qed

subsection \<open>C9: a malformed playbook file\<close>

lemma load_files_prefix:
  "all_load pre \<Longrightarrow>
     load_files (pre @ rest) s = load_files rest (s\<lparr>playbooks := playbooks s @ playbooks_of pre\<rparr>)"
  by (induction pre arbitrary: s rule: all_load.induct) (auto simp: yaml_named_def)

lemma load_files_malformed:
  assumes "yaml_named filename" and "all_load pre"
  shows "load_files (pre @ (filename, Inl reason) # post) s =
     (Some reason, s\<lparr>playbooks := playbooks s @ playbooks_of pre\<rparr>)"
  using assms by (simp add: load_files_prefix yaml_named_def)

text \<open>
  C9, as the code has it.  One \<^verbatim>\<open>try\<close> surrounds the whole loop over the files.
  When the files before the malformed one load, the playbooks of those files are
  loaded, one error line is logged, the malformed file and every file after it are not
  loaded, and start-up does not fail.
\<close>

theorem C9_load_stops_at_malformed_file:
  assumes "playbooks_dir env = Some (Inr (pre @ (filename, Inl reason) # post))"
    and "yaml_named filename"
    and "all_load pre"
    and "es_client_raises env = None"
  shows "playbooks (load_playbooks env self) = playbooks self @ playbooks_of pre \<and>
     trace (load_playbooks env self) =
       trace self @ [Log ERROR (''Failed to load playbooks: '' @ reason)] \<and>
     fst (initialize env self) = None \<and>
     playbooks (snd (initialize env self)) = playbooks self @ playbooks_of pre"
proof -
  have l: "load_playbooks env self =
      logger ERROR (''Failed to load playbooks: '' @ reason)
        (self\<lparr>playbooks := playbooks self @ playbooks_of pre\<rparr>)"
    using assms(1) load_files_malformed [OF assms(2) assms(3)]
    by (simp add: load_playbooks_def)
  show ?thesis
    using assms(4) by (simp add: l initialize_def logger_def emit_def)
qed

text \<open>
  Three files, the second malformed: the third, which is well formed, is not loaded.
\<close>

theorem C9_counterexample:
  "playbooks_dir env_files =
     Some (Inr [(''a.yaml'', Inr pb_sqli),
                (''b.yaml'', Inl ''mapping values are not allowed here''),
                (''c.yaml'', Inr pb_alert)]) \<and>
   playbooks (load_playbooks env_files new_orchestrator) = [pb_sqli] \<and>
   trace (load_playbooks env_files new_orchestrator) =
     [Log ERROR ''Failed to load playbooks: mapping values are not allowed here'']"
  by (simp add: env_files_def env_ok_def load_playbooks_def endswith_def new_orchestrator_def
      logger_def emit_def)

theorem C9_witness:
  "playbooks_dir env_files =
     Some (Inr ([(''a.yaml'', Inr pb_sqli)]
                @ (''b.yaml'', Inl ''mapping values are not allowed here'')
                # [(''c.yaml'', Inr pb_alert)])) \<and>
   yaml_named ''b.yaml'' \<and> all_load [(''a.yaml'', Inr pb_sqli)] \<and>
   es_client_raises env_files = None \<and>
   playbooks (load_playbooks env_files new_orchestrator) = [pb_sqli] \<and>
   trace (load_playbooks env_files new_orchestrator) =
     [Log ERROR ''Failed to load playbooks: mapping values are not allowed here''] \<and>
   fst (initialize env_files new_orchestrator) = None \<and>
   playbooks (snd (initialize env_files new_orchestrator)) = [pb_sqli]"
proof -
  have h1: "playbooks_dir env_files =
     Some (Inr ([(''a.yaml'', Inr pb_sqli)]
                @ (''b.yaml'', Inl ''mapping values are not allowed here'')
                # [(''c.yaml'', Inr pb_alert)]))"
    by (simp add: env_files_def)
  have h2: "yaml_named ''b.yaml''"
    by (simp add: yaml_named_def endswith_def)
  have h3: "all_load [(''a.yaml'', Inr pb_sqli)]"
    by simp
  have h4: "es_client_raises env_files = None"
    by (simp add: env_files_def env_ok_def)
  have p: "playbooks new_orchestrator = [] \<and> trace new_orchestrator = [] \<and>
      playbooks_of [(''a.yaml'', Inr pb_sqli)] = [pb_sqli]"
    by (simp add: new_orchestrator_def yaml_named_def endswith_def)
  show ?thesis
    using h1 h2 h3 h4 p
      C9_load_stops_at_malformed_file [OF h1 h2 h3 h4, of new_orchestrator]
    by simp
qed

subsection \<open>C10: a capability with no target\<close>

lemma map_filter_member:
  "x \<in> set xs \<Longrightarrow> f x = Some y \<Longrightarrow> y \<in> set (List.map_filter f xs)"
  by (force simp: List.map_filter_def)

lemma capability_without_target:
  "block_ip_address env None params s = s"
  "disable_user_account env None params s = s"
  "isolate_host env None params s = s"
  by (simp_all add: block_ip_address_def disable_user_account_def isolate_host_def falsy_def)

text \<open>
  C10.  Called with no address or no user, \<^verbatim>\<open>block_ip_address\<close>,
  \<^verbatim>\<open>disable_user_account\<close> and \<^verbatim>\<open>isolate_host\<close> return at once and do
  nothing.  The dispatcher appends its entry all the same: for an action of the playbook
  of type block_ip and an event without source address, the turn of the loop changes
  nothing but \<^verbatim>\<open>actions_taken\<close>, and the incident stored has the entry
  "Blocked IP: None"; likewise "Disabled user: None" and "Isolated host: None".
\<close>

theorem C10_absent_target_still_recorded:
  assumes "action \<in> set (actions playbook)"
  shows "block_ip_address env None params s = s \<and>
     disable_user_account env None params s = s \<and>
     isolate_host env None params s = s \<and>
     (\<exists>incident.
        map_of (incidents (execute_playbook env event playbook self))
          (make_incident_id (now_local env (ticks self)) event) = Some incident \<and>
        (dict_get action ''type'' PNone = PStr ''block_ip'' \<and> source_ip event = None \<longrightarrow>
           run_action env event action (taken, s) = (taken @ [''Blocked IP: None''], s) \<and>
           ''Blocked IP: None'' \<in> set (actions_taken incident)) \<and>
        (dict_get action ''type'' PNone = PStr ''disable_user'' \<and> user event = None \<longrightarrow>
           run_action env event action (taken, s) = (taken @ [''Disabled user: None''], s) \<and>
           ''Disabled user: None'' \<in> set (actions_taken incident)) \<and>
        (dict_get action ''type'' PNone = PStr ''isolate_host'' \<and> source_ip event = None \<longrightarrow>
           run_action env event action (taken, s) = (taken @ [''Isolated host: None''], s) \<and>
           ''Isolated host: None'' \<in> set (actions_taken incident)))"
proof -
  let ?inc = "dispatched_incident env event playbook self"
  have taken: "actions_taken ?inc = List.map_filter (entry_of event) (actions playbook)"
    by (simp add: dispatched_incident_def)
  have a: "run_action env event action (taken, s) = (taken @ [''Blocked IP: None''], s) \<and>
           ''Blocked IP: None'' \<in> set (actions_taken ?inc)"
    if "dict_get action ''type'' PNone = PStr ''block_ip''" "source_ip event = None"
  proof -
    have "entry_of event action = Some ''Blocked IP: None''"
      using that by (simp add: entry_of_def)
    then have "''Blocked IP: None'' \<in> set (actions_taken ?inc)"
      unfolding taken using assms by (rule map_filter_member [rotated])
    then show ?thesis
      using that by (simp add: run_action_def capability_without_target)
  qed
  have b: "run_action env event action (taken, s) = (taken @ [''Disabled user: None''], s) \<and>
           ''Disabled user: None'' \<in> set (actions_taken ?inc)"
    if "dict_get action ''type'' PNone = PStr ''disable_user''" "user event = None"
  proof -
    have "entry_of event action = Some ''Disabled user: None''"
      using that by (simp add: entry_of_def)
    then have "''Disabled user: None'' \<in> set (actions_taken ?inc)"
      unfolding taken using assms by (rule map_filter_member [rotated])
    then show ?thesis
      using that by (simp add: run_action_def capability_without_target)
  qed
  have c: "run_action env event action (taken, s) = (taken @ [''Isolated host: None''], s) \<and>
           ''Isolated host: None'' \<in> set (actions_taken ?inc)"
    if "dict_get action ''type'' PNone = PStr ''isolate_host''" "source_ip event = None"
  proof -
    have "entry_of event action = Some ''Isolated host: None''"
      using that by (simp add: entry_of_def)
    then have "''Isolated host: None'' \<in> set (actions_taken ?inc)"
      unfolding taken using assms by (rule map_filter_member [rotated])
    then show ?thesis
      using that by (simp add: run_action_def capability_without_target)
  qed
  show ?thesis
    using a b c dispatched_incident_stored [of env event playbook self]
    by (simp add: capability_without_target)
qed

theorem C10_witness:
  "[(''type'', PStr ''block_ip'')] \<in> set (actions pb_targets) \<and>
   [(''type'', PStr ''disable_user'')] \<in> set (actions pb_targets) \<and>
   [(''type'', PStr ''isolate_host'')] \<in> set (actions pb_targets) \<and>
   source_ip ev_anon = None \<and> user ev_anon = None \<and>
   block_ip_address env_ok None (PDict []) new_orchestrator = new_orchestrator \<and>
   (\<exists>incident.
      map_of (incidents (execute_playbook env_ok ev_anon pb_targets new_orchestrator))
        (make_incident_id (now_local env_ok (ticks new_orchestrator)) ev_anon) = Some incident \<and>
      ''Blocked IP: None'' \<in> set (actions_taken incident) \<and>
      ''Disabled user: None'' \<in> set (actions_taken incident) \<and>
      ''Isolated host: None'' \<in> set (actions_taken incident))"
proof -
  have h1: "[(''type'', PStr ''block_ip'')] \<in> set (actions pb_targets)"
    by (simp add: pb_targets_def)
  have h2: "[(''type'', PStr ''disable_user'')] \<in> set (actions pb_targets)"
    by (simp add: pb_targets_def)
  have h3: "[(''type'', PStr ''isolate_host'')] \<in> set (actions pb_targets)"
    by (simp add: pb_targets_def)
  have e: "source_ip ev_anon = None \<and> user ev_anon = None"
    by (simp add: ev_anon_def)
  note t1 = C10_absent_target_still_recorded [OF h1, of env_ok "PDict []" new_orchestrator
      ev_anon new_orchestrator "[]"]
  note t2 = C10_absent_target_still_recorded [OF h2, of env_ok "PDict []" new_orchestrator
      ev_anon new_orchestrator "[]"]
  note t3 = C10_absent_target_still_recorded [OF h3, of env_ok "PDict []" new_orchestrator
      ev_anon new_orchestrator "[]"]
  show ?thesis
    using h1 h2 h3 e t1 t2 t3 by (auto simp: dict_get_def)
qed

end
